theory Spec2Isabelle
  imports Main "HOL-Library.Word"
begin

section \<open>The storescu application of pynetdicom\<close>

text \<open>
  A shallow embedding of \<^verbatim>\<open>pynetdicom/apps/storescu/storescu.py\<close>. The script is
  straight-line code at module level: it parses its arguments, reads one DICOM file,
  derives a byte order from the file's transfer syntax, requests an association,
  and, when the association is established, rewrites ambiguous value
  representations in place, sends the data set and releases the association.

  The script's own code is modelled as written. What it calls in pydicom and in
  the association library (\<^verbatim>\<open>read_file\<close>, \<^verbatim>\<open>request_association\<close>,
  \<^verbatim>\<open>send_c_store\<close>) is not part of the file; the answer of each such call is a
  field of the environment record \<open>Env\<close>, so that every theorem below holds for
  every answer those calls can give.
\<close>

subsection \<open>Python values, exceptions and call outcomes\<close>

text \<open>
  The exceptions the script can meet. \<open>IOError\<close> is the class named by the
  script's first handler; \<open>TypeError\<close> and \<open>ValueError\<close> are the two exceptions of
  \<^verbatim>\<open>int.from_bytes\<close>; \<open>OtherException\<close> stands for any other exception class.
\<close>

datatype py_exception = IOError | TypeError | ValueError | OtherException

text \<open>A call either raises or returns.\<close>

datatype 'a outcome = Raises py_exception | Returns 'a

text \<open>
  The value of a data element is dynamically typed: raw bytes as parsed, and a
  Python integer once the script has assigned the result of \<^verbatim>\<open>int.from_bytes\<close>.
\<close>

datatype py_value = Bytes "8 word list" | IntVal int

subsection \<open>Data model\<close>

record Tag =
  group :: "16 word"
  elem :: "16 word"

record DataElement =
  tag :: Tag
  VR :: string
  elem_value :: py_value
  description :: string

record FileMeta =
  TransferSyntaxUID :: string

record Dataset =
  file_meta :: FileMeta
  elements :: "DataElement list"

text \<open>The parsed command line (\<^verbatim>\<open>_setup_argparser\<close>); only these fields are read.\<close>

record Args =
  peer :: string
  port :: int
  dcmfile_in :: string
  verbose :: bool
  debug :: bool
  calling_aet :: string
  called_aet :: string

datatype sop_class = CTImageStorageSOPClass

datatype transfer_syntax_name =
  ImplicitVRLittleEndian | ExplicitVRLittleEndian | ExplicitVRBigEndian

text \<open>
  What the run does to the outside world, in order: a line written to standard
  error by the logger's stream handler, the calls into pydicom and the
  association library, and the traceback of an exception nobody catches.
\<close>

datatype event =
    Stderr string
  | ReadFile string
  | CreateAE string nat "sop_class list" "sop_class list" "transfer_syntax_name list"
  | RequestAssociation string int string
  | SendCStore Dataset
  | Release
  | Quit
  | Traceback py_exception

text \<open>
  The answers of the outside world: what opening and parsing the file gives,
  whether \<^verbatim>\<open>assoc.Established\<close> is true, and what \<^verbatim>\<open>send_c_store\<close> gives. The
  type of the status object is a parameter: its class is not in the file.
\<close>

record 'st Env =
  read_file_outcome :: "Dataset outcome"
  Established :: bool
  send_c_store_outcome :: "'st outcome"

text \<open>
  What is left of a run: the events, the exit status of the process, and the
  object bound to the variable \<^verbatim>\<open>dataset\<close> when the process ends (\<open>None\<close> when it
  was never bound).
\<close>

record Run =
  trace :: "event list"
  exit_status :: nat
  final_dataset :: "Dataset option"

subsection \<open>Logging\<close>

text \<open>
  The logger starts at level ERROR (40); \<^verbatim>\<open>--verbose\<close> sets INFO (20) and then
  \<^verbatim>\<open>--debug\<close> sets DEBUG (10). A record is handed to the stream handler when its
  level is at least the logger's; the formatter is
  \<^verbatim>\<open>'%(levelname).1s: %(message)s'\<close>.
\<close>

definition logger_level :: "Args \<Rightarrow> nat" where
  "logger_level args = (if debug args then 10 else if verbose args then 20 else 40)"

definition logger_debug :: "Args \<Rightarrow> string \<Rightarrow> event list" where
  "logger_debug args msg = (if 10 \<ge> logger_level args then [Stderr (''D: '' @ msg)] else [])"

definition logger_info :: "Args \<Rightarrow> string \<Rightarrow> event list" where
  "logger_info args msg = (if 20 \<ge> logger_level args then [Stderr (''I: '' @ msg)] else [])"

definition logger_error :: "Args \<Rightarrow> string \<Rightarrow> event list" where
  "logger_error args msg = (if 40 \<ge> logger_level args then [Stderr (''E: '' @ msg)] else [])"

subsection \<open>String formatting\<close>

text \<open>\<^verbatim>\<open>s.split(' ')\<close>: the pieces between single spaces; \<^verbatim>\<open>''.join\<close> is \<open>concat\<close>.\<close>

fun split_space :: "string \<Rightarrow> string list" where
  "split_space [] = [] # []"
| "split_space (c # cs) =
     (if c = CHR '' '' then [] # split_space cs
      else (case split_space cs of
              [] \<Rightarrow> [c] # []
            | w # ws \<Rightarrow> (c # w) # ws))"

definition hex_digit :: "nat \<Rightarrow> char" where
  "hex_digit d = ''0123456789abcdef'' ! (d mod 16)"

text \<open>\<^verbatim>\<open>'%04x' % n\<close> for a 16-bit \<open>n\<close>: exactly four lower-case hexadecimal digits.\<close>

definition format_04x :: "16 word \<Rightarrow> string" where
  "format_04x w =
     [hex_digit (unat w div 4096), hex_digit (unat w div 256),
      hex_digit (unat w div 16), hex_digit (unat w)]"

definition setting_undefined_VR :: "string \<Rightarrow> 16 word \<Rightarrow> 16 word \<Rightarrow> string \<Rightarrow> string" where
  "setting_undefined_VR elem_name elem_group elem_element vr =
     ''Setting undefined VR of '' @ elem_name @ '' ('' @ format_04x elem_group @ '', ''
       @ format_04x elem_element @ '') to '' @ [CHR 0x27] @ vr @ [CHR 0x27]"

subsection \<open>Transfer syntax and byte order (lines 118 to 122)\<close>

text \<open>The byte order as a function of \<^verbatim>\<open>dataset.file_meta.TransferSyntaxUID\<close>.\<close>

definition byte_order :: "string \<Rightarrow> string" where
  "byte_order uid =
     (if uid \<in> set [''1.2.840.10008.1.2'', ''1.2.840.10008.1.2.1'']
      then ''little'' else ''big'')"

subsection \<open>\<^verbatim>\<open>int.from_bytes\<close>\<close>

text \<open>
  Python's \<^verbatim>\<open>int.from_bytes(bytes, byteorder)\<close> with the default \<^verbatim>\<open>signed=False\<close>.
  It accepts a byte string of any length (the empty one gives 0), raises
  \<open>ValueError\<close> for a byte order other than \<^verbatim>\<open>'little'\<close> and \<^verbatim>\<open>'big'\<close>, and
  \<open>TypeError\<close> for an integer argument. The big-endian reading accumulates from
  the first byte, the little-endian one from the last.
\<close>

definition from_bytes_big :: "8 word list \<Rightarrow> int" where
  "from_bytes_big bs = foldl (\<lambda>acc b. acc * 256 + uint b) 0 bs"

definition from_bytes_little :: "8 word list \<Rightarrow> int" where
  "from_bytes_little bs = foldr (\<lambda>b acc. uint b + 256 * acc) bs 0"

definition int_from_bytes :: "py_value \<Rightarrow> string \<Rightarrow> py_exception + int" where
  "int_from_bytes v byteorder =
     (if byteorder = ''little'' then
        (case v of Bytes bs \<Rightarrow> Inr (from_bytes_little bs) | IntVal _ \<Rightarrow> Inl TypeError)
      else if byteorder = ''big'' then
        (case v of Bytes bs \<Rightarrow> Inr (from_bytes_big bs) | IntVal _ \<Rightarrow> Inl TypeError)
      else Inl ValueError)"

text \<open>
  The unsigned integer a byte string denotes, in the words of the specification:
  byte \<open>i\<close> has weight \<open>256 ^ i\<close> when the least significant byte comes first
  (little-endian), and weight \<open>256 ^ (n - 1 - i)\<close> when the most significant byte
  comes first (big-endian).
\<close>

definition unsigned_little :: "8 word list \<Rightarrow> int" where
  "unsigned_little bs = (\<Sum>i\<leftarrow>[0..<length bs]. uint (bs ! i) * 256 ^ i)"

definition unsigned_big :: "8 word list \<Rightarrow> int" where
  "unsigned_big bs = (\<Sum>i\<leftarrow>[0..<length bs]. uint (bs ! i) * 256 ^ (length bs - 1 - i))"

definition unsigned_decode :: "string \<Rightarrow> 8 word list \<Rightarrow> int" where
  "unsigned_decode order bs = (if order = ''little'' then unsigned_little bs else unsigned_big bs)"

subsection \<open>Correcting ambiguous VRs (lines 149 to 165)\<close>

text \<open>
  The second \<^verbatim>\<open>if\<close> of the loop body. It is not an \<^verbatim>\<open>elif\<close>: it also runs on an
  element the first \<^verbatim>\<open>if\<close> has just rewritten.
\<close>

definition if_OB_or_OW ::
  "Args \<Rightarrow> string \<Rightarrow> 16 word \<Rightarrow> 16 word \<Rightarrow> DataElement \<Rightarrow> event list \<times> DataElement" where
  "if_OB_or_OW args elem_name elem_group elem_element e =
     (if VR e = ''OB or OW'' then
        (logger_debug args (setting_undefined_VR elem_name elem_group elem_element ''OW''),
         e\<lparr>VR := ''OW''\<rparr>)
      else ([], e))"

text \<open>
  One pass of the loop body over one element: the lines logged, the element as
  it is left in memory, and the exception raised, if any. The VR is assigned
  before \<^verbatim>\<open>int.from_bytes\<close> is called, so an exception leaves the element with VR
  \<^verbatim>\<open>'US'\<close> and its old value.
\<close>

definition loop_body ::
  "Args \<Rightarrow> string \<Rightarrow> DataElement \<Rightarrow> event list \<times> DataElement \<times> py_exception option" where
  "loop_body args order e =
     (let elem_name = concat (split_space (description e));
          elem_group = group (tag e);
          elem_element = elem (tag e)
      in if VR e = ''US or SS'' then
           (let lg = logger_debug args (setting_undefined_VR elem_name elem_group elem_element ''US'');
                e1 = e\<lparr>VR := ''US''\<rparr>
            in case int_from_bytes (elem_value e1) order of
                 Inl exc \<Rightarrow> (lg, e1, Some exc)
               | Inr n \<Rightarrow>
                   (case if_OB_or_OW args elem_name elem_group elem_element (e1\<lparr>elem_value := IntVal n\<rparr>) of
                      (lg2, e2) \<Rightarrow> (lg @ lg2, e2, None)))
         else
           (case if_OB_or_OW args elem_name elem_group elem_element e of
              (lg2, e2) \<Rightarrow> (lg2, e2, None)))"

text \<open>
  \<^verbatim>\<open>for elem in dataset\<close>: the elements in order, each mutated in place. An
  exception stops the loop; the elements after the failing one are untouched.
\<close>

fun correct_loop ::
  "Args \<Rightarrow> string \<Rightarrow> DataElement list \<Rightarrow> event list \<times> DataElement list \<times> py_exception option" where
  "correct_loop args order [] = ([], [], None)"
| "correct_loop args order (e # es) =
     (case loop_body args order e of
        (lg, e', Some exc) \<Rightarrow> (lg, e' # es, Some exc)
      | (lg, e', None) \<Rightarrow>
          (case correct_loop args order es of
             (lg2, es', r) \<Rightarrow> (lg @ lg2, e' # es', r)))"

text \<open>The three components of the loop's result.\<close>

definition logged :: "Args \<Rightarrow> string \<Rightarrow> DataElement list \<Rightarrow> event list" where
  "logged args order es = fst (correct_loop args order es)"

definition corrected :: "Args \<Rightarrow> string \<Rightarrow> DataElement list \<Rightarrow> DataElement list" where
  "corrected args order es = fst (snd (correct_loop args order es))"

definition raised :: "Args \<Rightarrow> string \<Rightarrow> DataElement list \<Rightarrow> py_exception option" where
  "raised args order es = snd (snd (correct_loop args order es))"

text \<open>Whether a value is a byte string, as every value is when it comes from the parser.\<close>

fun is_bytes :: "py_value \<Rightarrow> bool" where
  "is_bytes (Bytes bs) = True"
| "is_bytes (IntVal n) = False"

subsection \<open>The script\<close>

definition transfer_syntax :: "transfer_syntax_name list" where
  "transfer_syntax = [ImplicitVRLittleEndian, ExplicitVRLittleEndian, ExplicitVRBigEndian]"

text \<open>
  The module body from line 102 on. \<^verbatim>\<open>sys.exit()\<close> is called without an argument,
  which is exit status 0; an exception nobody catches prints a traceback and
  gives exit status 1; running off the end of the script gives 0. Nothing in
  the script catches an exception after the file has been read. The constructor
  of the application entity, \<^verbatim>\<open>request_association\<close>, \<^verbatim>\<open>Release\<close> and \<^verbatim>\<open>Quit\<close> are
  taken to return; opening and parsing the file and \<^verbatim>\<open>send_c_store\<close> may raise.
\<close>

definition storescu :: "Args \<Rightarrow> 'st Env \<Rightarrow> Run" where
  "storescu args env =
     (let t0 = logger_debug args ''$storescu.py v0.1.0 2016-02-10 $''
               @ logger_debug args ''''
               @ logger_debug args ''Checking input files''
               @ [ReadFile (dcmfile_in args)]
      in case read_file_outcome env of
           Raises exc \<Rightarrow>
             (if exc = IOError then
                \<lparr>trace = t0 @ logger_error args (''Cannot read input file '' @ dcmfile_in args),
                 exit_status = 0, final_dataset = None\<rparr>
              else
                \<lparr>trace = t0 @ logger_error args (''File may not be DICOM '' @ dcmfile_in args),
                 exit_status = 0, final_dataset = None\<rparr>)
         | Returns dataset \<Rightarrow>
             (let order = byte_order (TransferSyntaxUID (file_meta dataset));
                  t1 = t0 @ [CreateAE (calling_aet args) 0 [CTImageStorageSOPClass] [] transfer_syntax,
                             RequestAssociation (peer args) (port args) (called_aet args)]
              in if Established env then
                   (let t2 = t1 @ logger_info args (''Sending file: '' @ dcmfile_in args)
                    in case correct_loop args order (elements dataset) of
                         (lg, es, Some exc) \<Rightarrow>
                           \<lparr>trace = t2 @ lg @ [Traceback exc], exit_status = 1,
                            final_dataset = Some (dataset\<lparr>elements := es\<rparr>)\<rparr>
                       | (lg, es, None) \<Rightarrow>
                           (let dataset' = dataset\<lparr>elements := es\<rparr>;
                                t3 = t2 @ lg @ [SendCStore dataset']
                            in case send_c_store_outcome env of
                                 Raises exc \<Rightarrow>
                                   \<lparr>trace = t3 @ [Traceback exc], exit_status = 1,
                                    final_dataset = Some dataset'\<rparr>
                               | Returns status \<Rightarrow>
                                   \<lparr>trace = t3 @ [Release, Quit], exit_status = 0,
                                    final_dataset = Some dataset'\<rparr>))
                 else
                   \<lparr>trace = t1 @ [Quit], exit_status = 0, final_dataset = Some dataset\<rparr>))"

text \<open>The events that reach the peer or the local application entity.\<close>

fun is_network :: "event \<Rightarrow> bool" where
  "is_network (Stderr s) = False"
| "is_network (ReadFile p) = False"
| "is_network (Traceback x) = False"
| "is_network (CreateAE a p scu scp ts) = True"
| "is_network (RequestAssociation h p a) = True"
| "is_network (SendCStore d) = True"
| "is_network Release = True"
| "is_network Quit = True"

fun is_Stderr :: "event \<Rightarrow> bool" where
  "is_Stderr (Stderr s) = True"
| "is_Stderr ev = False"

fun is_SendCStore :: "event \<Rightarrow> bool" where
  "is_SendCStore (SendCStore d) = True"
| "is_SendCStore ev = False"

subsection \<open>Concrete inputs\<close>

text \<open>
  A command line, a \<^verbatim>\<open>US or SS\<close> element over given bytes, a pixel data element
  with VR \<^verbatim>\<open>OB or OW\<close>, a data set in implicit little endian holding both, and
  an environment in which the file parses to that data set and the peer accepts
  the association.
\<close>

definition ex_args :: Args where
  "ex_args = \<lparr>peer = ''localhost'', port = 11112, dcmfile_in = ''ct.dcm'', verbose = False,
     debug = False, calling_aet = ''STORESCU'', called_aet = ''ANY-SCP''\<rparr>"

definition ex_us :: "8 word list \<Rightarrow> DataElement" where
  "ex_us bs = \<lparr>tag = \<lparr>group = 0x0028, elem = 0x0106\<rparr>, VR = ''US or SS'',
     elem_value = Bytes bs, description = ''Smallest Image Pixel Value''\<rparr>"

definition ex_pixels :: DataElement where
  "ex_pixels = \<lparr>tag = \<lparr>group = 0x7fe0, elem = 0x0010\<rparr>, VR = ''OB or OW'',
     elem_value = Bytes [1, 2, 3, 4], description = ''Pixel Data''\<rparr>"

definition ex_dataset :: Dataset where
  "ex_dataset = \<lparr>file_meta = \<lparr>TransferSyntaxUID = ''1.2.840.10008.1.2''\<rparr>,
     elements = [ex_us [0x00, 0x05], ex_pixels]\<rparr>"

definition ex_env :: "(16 word) outcome \<Rightarrow> (16 word) Env" where
  "ex_env s = \<lparr>read_file_outcome = Returns ex_dataset, Established = True, send_c_store_outcome = s\<rparr>"

text \<open>The file cannot be opened; and the file parses but the peer rejects the association.\<close>

definition ex_env_unreadable :: "(16 word) Env" where
  "ex_env_unreadable = \<lparr>read_file_outcome = Raises IOError, Established = True,
     send_c_store_outcome = Returns 0\<rparr>"

definition ex_env_rejected :: "(16 word) Env" where
  "ex_env_rejected = \<lparr>read_file_outcome = Returns ex_dataset, Established = False,
     send_c_store_outcome = Returns 0\<rparr>"

section \<open>Properties\<close>

subsection \<open>Byte strings as unsigned integers\<close>

lemma byte_order_cases: "byte_order uid = ''little'' \<or> byte_order uid = ''big''"
  by (simp add: byte_order_def)

lemma upt_Suc_shift: "[0..<Suc n] = 0 # map Suc [0..<n]"
  by (simp add: upt_conv_Cons map_Suc_upt del: upt_Suc)

lemma unsigned_little_Cons: "unsigned_little (b # bs) = uint b + 256 * unsigned_little bs"
proof -
  have "(\<Sum>i\<leftarrow>[0..<length bs]. uint (bs ! i) * 256 ^ Suc i)
      = (\<Sum>i\<leftarrow>[0..<length bs]. 256 * (uint (bs ! i) * 256 ^ i))"
    by (rule arg_cong [where f = sum_list]) simp
  also have "\<dots> = 256 * (\<Sum>i\<leftarrow>[0..<length bs]. uint (bs ! i) * 256 ^ i)"
    by (rule sum_list_const_mult)
  finally show ?thesis
    by (simp add: unsigned_little_def upt_Suc_shift comp_def del: upt_Suc)
qed

lemma from_bytes_little_unsigned: "from_bytes_little bs = unsigned_little bs"
proof (induction bs)
  case Nil
  show ?case by (simp add: from_bytes_little_def unsigned_little_def)
next
  case (Cons b bs)
  have "from_bytes_little (b # bs) = uint b + 256 * from_bytes_little bs"
    by (simp add: from_bytes_little_def)
  with Cons show ?case by (simp add: unsigned_little_Cons)
qed

lemma unsigned_big_snoc: "unsigned_big (bs @ [b]) = unsigned_big bs * 256 + uint b"
proof -
  have "(\<Sum>i\<leftarrow>[0..<length bs]. uint ((bs @ [b]) ! i) * 256 ^ (length bs - i))
      = (\<Sum>i\<leftarrow>[0..<length bs]. (uint (bs ! i) * 256 ^ (length bs - 1 - i)) * 256)"
  proof (rule arg_cong [where f = sum_list], rule map_cong [OF refl])
    fix i assume "i \<in> set [0..<length bs]"
    then have i: "i < length bs" by simp
    then have "length bs - i = Suc (length bs - 1 - i)" by arith
    with i show "uint ((bs @ [b]) ! i) * 256 ^ (length bs - i)
        = (uint (bs ! i) * 256 ^ (length bs - 1 - i)) * 256"
      by (simp add: nth_append)
  qed
  then show ?thesis
    by (simp add: unsigned_big_def sum_list_mult_const)
qed

lemma from_bytes_big_unsigned: "from_bytes_big bs = unsigned_big bs"
proof (induction bs rule: rev_induct)
  case Nil
  show ?case by (simp add: from_bytes_big_def unsigned_big_def)
next
  case (snoc b bs)
  have "from_bytes_big (bs @ [b]) = from_bytes_big bs * 256 + uint b"
    by (simp add: from_bytes_big_def)
  with snoc show ?case by (simp add: unsigned_big_snoc)
qed

lemma int_from_bytes_Bytes:
  "int_from_bytes (Bytes bs) (byte_order uid) = Inr (unsigned_decode (byte_order uid) bs)"
  using byte_order_cases [of uid]
  by (auto simp: int_from_bytes_def unsigned_decode_def
      from_bytes_little_unsigned from_bytes_big_unsigned)

lemma loop_body_US_or_SS:
  assumes "VR e = ''US or SS''" and "elem_value e = Bytes bs"
  shows "loop_body args (byte_order uid) e =
     (logger_debug args (setting_undefined_VR (concat (split_space (description e)))
          (group (tag e)) (elem (tag e)) ''US''),
      e\<lparr>VR := ''US'', elem_value := IntVal (unsigned_decode (byte_order uid) bs)\<rparr>, None)"
  using assms by (simp add: loop_body_def Let_def int_from_bytes_Bytes if_OB_or_OW_def)

lemma loop_body_OB_or_OW:
  assumes "VR e = ''OB or OW''"
  shows "loop_body args order e =
     (logger_debug args (setting_undefined_VR (concat (split_space (description e)))
          (group (tag e)) (elem (tag e)) ''OW''),
      e\<lparr>VR := ''OW''\<rparr>, None)"
  using assms by (simp add: loop_body_def Let_def if_OB_or_OW_def)

lemma loop_body_concrete:
  assumes "VR e \<noteq> ''US or SS''" and "VR e \<noteq> ''OB or OW''"
  shows "loop_body args order e = ([], e, None)"
  using assms by (simp add: loop_body_def Let_def if_OB_or_OW_def)

lemma loop_body_ok:
  assumes "VR e = ''US or SS'' \<longrightarrow> is_bytes (elem_value e)"
  shows "snd (snd (loop_body args (byte_order uid) e)) = None"
proof (cases "VR e = ''US or SS''")
  case True
  with assms obtain bs where "elem_value e = Bytes bs"
    by (cases "elem_value e") auto
  with True show ?thesis by (simp add: loop_body_US_or_SS)
next
  case False
  then show ?thesis
    by (cases "VR e = ''OB or OW''") (simp_all add: loop_body_OB_or_OW loop_body_concrete)
qed

lemma loop_body_result_concrete:
  assumes "snd (snd (loop_body args order e)) = None"
  shows "VR (fst (snd (loop_body args order e))) \<noteq> ''US or SS''
       \<and> VR (fst (snd (loop_body args order e))) \<noteq> ''OB or OW''"
  using assms
  by (auto simp: loop_body_def Let_def if_OB_or_OW_def split: sum.splits if_splits)

lemma correct_loop_None:
  assumes "\<forall>e\<in>set es. snd (snd (loop_body args order e)) = None"
  shows "snd (correct_loop args order es) = (map (\<lambda>e. fst (snd (loop_body args order e))) es, None)"
  using assms
proof (induction es)
  case Nil
  show ?case by simp
next
  case (Cons e es)
  obtain lg e' where b: "loop_body args order e = (lg, e', None)"
    using Cons.prems by (cases "loop_body args order e") auto
  obtain lg2 es' r where l: "correct_loop args order es = (lg2, es', r)"
    by (cases "correct_loop args order es") auto
  from Cons have "snd (correct_loop args order es) = (map (\<lambda>e. fst (snd (loop_body args order e))) es, None)"
    by simp
  with b l show ?case by simp
qed

lemma correct_loop_raw:
  assumes "\<forall>e\<in>set es. VR e = ''US or SS'' \<longrightarrow> is_bytes (elem_value e)"
  shows "raised args (byte_order uid) es = None"
    and "corrected args (byte_order uid) es = map (\<lambda>e. fst (snd (loop_body args (byte_order uid) e))) es"
proof -
  have "\<forall>e\<in>set es. snd (snd (loop_body args (byte_order uid) e)) = None"
    using assms by (simp add: loop_body_ok)
  then have "snd (correct_loop args (byte_order uid) es)
      = (map (\<lambda>e. fst (snd (loop_body args (byte_order uid) e))) es, None)"
    by (rule correct_loop_None)
  then show "raised args (byte_order uid) es = None"
    and "corrected args (byte_order uid) es = map (\<lambda>e. fst (snd (loop_body args (byte_order uid) e))) es"
    by (simp_all add: raised_def corrected_def)
qed

lemma correct_loop_concrete:
  assumes "\<forall>e\<in>set es. VR e \<noteq> ''US or SS'' \<and> VR e \<noteq> ''OB or OW''"
  shows "correct_loop args order es = ([], es, None)"
  using assms by (induction es) (simp_all add: loop_body_concrete)

lemma logged_Stderr: "list_all is_Stderr (fst (correct_loop args order es))"
proof (induction es)
  case Nil
  show ?case by simp
next
  case (Cons e es)
  have "list_all is_Stderr (fst (loop_body args order e))"
    by (auto simp: loop_body_def Let_def if_OB_or_OW_def logger_debug_def split: sum.splits)
  with Cons show ?case
    by (auto split: prod.splits option.splits)
qed

subsection \<open>The shape of a run\<close>

lemma logger_debug_Stderr: "list_all is_Stderr (logger_debug args m)"
  by (simp add: logger_debug_def)

lemma logger_info_Stderr: "list_all is_Stderr (logger_info args m)"
  by (simp add: logger_info_def)

lemma logger_error_emits: "logger_error args m = [Stderr (''E: '' @ m)]"
  by (simp add: logger_error_def logger_level_def)

lemma count_list_Stderr:
  assumes "list_all is_Stderr xs" and "\<not> is_Stderr ev"
  shows "count_list xs ev = 0"
  using assms by (induction xs) auto

lemma list_ex_Stderr:
  assumes "list_all is_Stderr xs"
  shows "\<not> list_ex is_network xs \<and> \<not> list_ex is_SendCStore xs"
  using assms
proof (induction xs)
  case Nil
  show ?case by simp
next
  case (Cons x xs)
  then show ?case by (cases x) simp_all
qed

text \<open>What the script has done when it reaches the test of \<^verbatim>\<open>assoc.Established\<close>.\<close>

lemma run_rejected:
  assumes "read_file_outcome env = Returns ds" and "\<not> Established env"
  shows "storescu args env =
     \<lparr>trace = logger_debug args ''$storescu.py v0.1.0 2016-02-10 $'' @ logger_debug args ''''
          @ logger_debug args ''Checking input files'' @ [ReadFile (dcmfile_in args)]
          @ [CreateAE (calling_aet args) 0 [CTImageStorageSOPClass] [] transfer_syntax,
             RequestAssociation (peer args) (port args) (called_aet args)] @ [Quit],
      exit_status = 0, final_dataset = Some ds\<rparr>"
  using assms by (simp add: storescu_def Let_def)

lemma run_unreadable:
  assumes "read_file_outcome env = Raises exc"
  shows "storescu args env =
     \<lparr>trace = logger_debug args ''$storescu.py v0.1.0 2016-02-10 $'' @ logger_debug args ''''
          @ logger_debug args ''Checking input files'' @ [ReadFile (dcmfile_in args)]
          @ [Stderr (''E: '' @ (if exc = IOError then ''Cannot read input file ''
                else ''File may not be DICOM '') @ dcmfile_in args)],
      exit_status = 0, final_dataset = None\<rparr>"
  using assms by (simp add: storescu_def Let_def logger_error_emits)

lemma run_established:
  assumes "read_file_outcome env = Returns ds" and "Established env"
    and "raised args (byte_order (TransferSyntaxUID (file_meta ds))) (elements ds) = None"
  shows "storescu args env =
     (case send_c_store_outcome env of
        Raises exc \<Rightarrow>
          \<lparr>trace = logger_debug args ''$storescu.py v0.1.0 2016-02-10 $'' @ logger_debug args ''''
             @ logger_debug args ''Checking input files'' @ [ReadFile (dcmfile_in args)]
             @ [CreateAE (calling_aet args) 0 [CTImageStorageSOPClass] [] transfer_syntax,
                RequestAssociation (peer args) (port args) (called_aet args)]
             @ logger_info args (''Sending file: '' @ dcmfile_in args)
             @ logged args (byte_order (TransferSyntaxUID (file_meta ds))) (elements ds)
             @ [SendCStore (ds\<lparr>elements := corrected args (byte_order (TransferSyntaxUID (file_meta ds))) (elements ds)\<rparr>)]
             @ [Traceback exc],
           exit_status = 1,
           final_dataset = Some (ds\<lparr>elements := corrected args (byte_order (TransferSyntaxUID (file_meta ds))) (elements ds)\<rparr>)\<rparr>
      | Returns status \<Rightarrow>
          \<lparr>trace = logger_debug args ''$storescu.py v0.1.0 2016-02-10 $'' @ logger_debug args ''''
             @ logger_debug args ''Checking input files'' @ [ReadFile (dcmfile_in args)]
             @ [CreateAE (calling_aet args) 0 [CTImageStorageSOPClass] [] transfer_syntax,
                RequestAssociation (peer args) (port args) (called_aet args)]
             @ logger_info args (''Sending file: '' @ dcmfile_in args)
             @ logged args (byte_order (TransferSyntaxUID (file_meta ds))) (elements ds)
             @ [SendCStore (ds\<lparr>elements := corrected args (byte_order (TransferSyntaxUID (file_meta ds))) (elements ds)\<rparr>)]
             @ [Release, Quit],
           exit_status = 0,
           final_dataset = Some (ds\<lparr>elements := corrected args (byte_order (TransferSyntaxUID (file_meta ds))) (elements ds)\<rparr>)\<rparr>)"
proof -
  obtain lg es r where l: "correct_loop args (byte_order (TransferSyntaxUID (file_meta ds))) (elements ds) = (lg, es, r)"
    by (cases "correct_loop args (byte_order (TransferSyntaxUID (file_meta ds))) (elements ds)") auto
  with assms(3) have r: "r = None" by (simp add: raised_def)
  show ?thesis
    using assms(1,2) l r
    by (cases "send_c_store_outcome env") (simp_all add: storescu_def Let_def logged_def corrected_def)
qed

lemma trace_counts:
  assumes "list_all is_Stderr a" and "list_all is_Stderr b" and "list_all is_Stderr c"
    and "list_all is_Stderr d" and "list_all is_Stderr e"
    and "\<not> is_Stderr ev"
  shows "count_list (a @ b @ c @ [ReadFile p] @ [CreateAE x y z u v, RequestAssociation h q w] @ d @ e @ [SendCStore s] @ t) ev
       = count_list ([ReadFile p, CreateAE x y z u v, RequestAssociation h q w, SendCStore s] @ t) ev"
  using assms by (simp add: count_list_Stderr)

lemma run_send_raises:
  assumes "read_file_outcome env = Returns ds" and "Established env"
    and "\<forall>e\<in>set (elements ds). VR e = ''US or SS'' \<longrightarrow> is_bytes (elem_value e)"
    and "send_c_store_outcome env = Raises exc"
  shows "count_list (trace (storescu args env)) Release = 0
       \<and> count_list (trace (storescu args env)) Quit = 0
       \<and> exit_status (storescu args env) = 1"
proof -
  have r: "raised args (byte_order (TransferSyntaxUID (file_meta ds))) (elements ds) = None"
    using assms(3) by (rule correct_loop_raw(1))
  note run = run_established [OF assms(1,2) r]
  have lg: "list_all is_Stderr (logged args (byte_order (TransferSyntaxUID (file_meta ds))) (elements ds))"
    by (simp add: logged_def logged_Stderr)
  have c1: "count_list (trace (storescu args env)) Release = 0"
    unfolding run assms(4) outcome.case Run.simps
    by (subst trace_counts) (simp_all add: logger_debug_Stderr logger_info_Stderr lg)
  have c2: "count_list (trace (storescu args env)) Quit = 0"
    unfolding run assms(4) outcome.case Run.simps
    by (subst trace_counts) (simp_all add: logger_debug_Stderr logger_info_Stderr lg)
  have c4: "exit_status (storescu args env) = 1"
    unfolding run assms(4) outcome.case by simp
  from c1 c2 c4 show ?thesis by simp
qed

lemma ex_dataset_raw:
  "\<forall>e\<in>set (elements ex_dataset). VR e = ''US or SS'' \<longrightarrow> is_bytes (elem_value e)"
  by (simp add: ex_dataset_def ex_pixels_def ex_us_def)

lemma single_raw: "\<forall>e\<in>set [ex_us bs]. VR e = ''US or SS'' \<longrightarrow> is_bytes (elem_value e)"
  by (simp add: ex_us_def)

subsection \<open>The claims\<close>

text \<open>
  C1. Take a data set whose \<^verbatim>\<open>US or SS\<close> elements hold raw bytes, as the parser
  leaves them, and any transfer syntax UID. The correction loop, run with the
  byte order resolved from that UID, raises nothing and keeps the number of
  elements; every element that had VR \<^verbatim>\<open>US or SS\<close> and bytes \<open>bs\<close> has VR \<^verbatim>\<open>US\<close>
  afterwards, and its value is the unsigned integer that \<open>bs\<close> denotes in the
  resolved byte order.
\<close>

theorem C1_US_or_SS_becomes_US:
  assumes "\<forall>e\<in>set es. VR e = ''US or SS'' \<longrightarrow> is_bytes (elem_value e)"
    and "i < length es" and "VR (es ! i) = ''US or SS''" and "elem_value (es ! i) = Bytes bs"
  shows "raised args (byte_order uid) es = None
       \<and> length (corrected args (byte_order uid) es) = length es
       \<and> VR (corrected args (byte_order uid) es ! i) = ''US''
       \<and> elem_value (corrected args (byte_order uid) es ! i) = IntVal (unsigned_decode (byte_order uid) bs)"
proof -
  note r = correct_loop_raw [OF assms(1), of args uid]
  have "corrected args (byte_order uid) es ! i = fst (snd (loop_body args (byte_order uid) (es ! i)))"
    using assms(2) by (simp add: r(2))
  also have "\<dots> = (es ! i)\<lparr>VR := ''US'', elem_value := IntVal (unsigned_decode (byte_order uid) bs)\<rparr>"
    using assms(3,4) by (simp add: loop_body_US_or_SS)
  finally show ?thesis by (simp add: r)
qed

theorem C1_US_or_SS_becomes_US_witness:
  "VR (corrected ex_args (byte_order ''1.2.840.10008.1.2.2'') [ex_pixels, ex_us [0x01, 0x02]] ! 1) = ''US''
   \<and> elem_value (corrected ex_args (byte_order ''1.2.840.10008.1.2.2'') [ex_pixels, ex_us [0x01, 0x02]] ! 1)
       = IntVal 258"
proof -
  have h: "\<forall>e\<in>set [ex_pixels, ex_us [0x01, 0x02]]. VR e = ''US or SS'' \<longrightarrow> is_bytes (elem_value e)"
    by (simp add: ex_pixels_def ex_us_def)
  have d: "unsigned_decode (byte_order ''1.2.840.10008.1.2.2'') [0x01, 0x02] = 258"
    by (simp add: unsigned_decode_def byte_order_def unsigned_big_def)
  show ?thesis
    using C1_US_or_SS_becomes_US [OF h, of 1 "[0x01, 0x02]" ex_args "''1.2.840.10008.1.2.2''"] d
    by (simp add: ex_us_def)
qed

text \<open>
  C2. The byte order derived from the transfer syntax UID is little for
  \<^verbatim>\<open>1.2.840.10008.1.2\<close> and for \<^verbatim>\<open>1.2.840.10008.1.2.1\<close>, and big for every other
  string.
\<close>

theorem C2_byte_order:
  "byte_order ''1.2.840.10008.1.2'' = ''little''
   \<and> byte_order ''1.2.840.10008.1.2.1'' = ''little''
   \<and> (\<forall>uid. uid \<noteq> ''1.2.840.10008.1.2'' \<and> uid \<noteq> ''1.2.840.10008.1.2.1'' \<longrightarrow> byte_order uid = ''big'')"
  by (simp add: byte_order_def)

theorem C2_byte_order_witness: "byte_order ''1.2.840.10008.1.2.2'' = ''big''"
  using C2_byte_order [THEN conjunct2, THEN conjunct2, THEN spec, of "''1.2.840.10008.1.2.2''"]
  by simp

text \<open>
  C3. In a data set whose \<^verbatim>\<open>US or SS\<close> elements hold raw bytes, the loop raises
  nothing, and every element that had VR \<^verbatim>\<open>OB or OW\<close> is afterwards the same element
  with VR \<^verbatim>\<open>OW\<close>: its value is the one it had, and so are its tag and its
  description.
\<close>

theorem C3_OB_or_OW_becomes_OW:
  assumes "\<forall>e\<in>set es. VR e = ''US or SS'' \<longrightarrow> is_bytes (elem_value e)"
    and "i < length es" and "VR (es ! i) = ''OB or OW''"
  shows "raised args (byte_order uid) es = None
       \<and> length (corrected args (byte_order uid) es) = length es
       \<and> VR (corrected args (byte_order uid) es ! i) = ''OW''
       \<and> elem_value (corrected args (byte_order uid) es ! i) = elem_value (es ! i)
       \<and> corrected args (byte_order uid) es ! i = (es ! i)\<lparr>VR := ''OW''\<rparr>"
proof -
  note r = correct_loop_raw [OF assms(1), of args uid]
  have "corrected args (byte_order uid) es ! i = fst (snd (loop_body args (byte_order uid) (es ! i)))"
    using assms(2) by (simp add: r(2))
  also have "\<dots> = (es ! i)\<lparr>VR := ''OW''\<rparr>"
    using assms(3) by (simp add: loop_body_OB_or_OW)
  finally show ?thesis by (simp add: r)
qed

theorem C3_OB_or_OW_becomes_OW_witness:
  "corrected ex_args (byte_order ''1.2.840.10008.1.2'') (elements ex_dataset) ! 1
     = \<lparr>tag = \<lparr>group = 0x7fe0, elem = 0x0010\<rparr>, VR = ''OW'',
        elem_value = Bytes [1, 2, 3, 4], description = ''Pixel Data''\<rparr>"
proof -
  have h: "\<forall>e\<in>set (elements ex_dataset). VR e = ''US or SS'' \<longrightarrow> is_bytes (elem_value e)"
    by (simp add: ex_dataset_def ex_pixels_def ex_us_def)
  show ?thesis
    using C3_OB_or_OW_becomes_OW [OF h, of 1 ex_args "''1.2.840.10008.1.2''"]
    by (simp add: ex_dataset_def ex_pixels_def)
qed

text \<open>
  C4. In a data set whose \<^verbatim>\<open>US or SS\<close> elements hold raw bytes, the loop raises
  nothing, and running it again on the data set it has produced raises nothing,
  logs nothing and leaves every element as it is.
\<close>

theorem C4_idempotent:
  assumes "\<forall>e\<in>set es. VR e = ''US or SS'' \<longrightarrow> is_bytes (elem_value e)"
  shows "raised args (byte_order uid) es = None
       \<and> correct_loop args (byte_order uid) (corrected args (byte_order uid) es)
           = ([], corrected args (byte_order uid) es, None)"
proof -
  note r = correct_loop_raw [OF assms, of args uid]
  have "\<forall>e\<in>set es. snd (snd (loop_body args (byte_order uid) e)) = None"
    using assms by (simp add: loop_body_ok)
  then have "\<forall>e\<in>set (corrected args (byte_order uid) es). VR e \<noteq> ''US or SS'' \<and> VR e \<noteq> ''OB or OW''"
    by (simp add: r(2) loop_body_result_concrete)
  then show ?thesis
    by (simp add: r(1) correct_loop_concrete)
qed

theorem C4_idempotent_witness:
  "correct_loop ex_args ''little'' (corrected ex_args ''little'' (elements ex_dataset))
     = ([], corrected ex_args ''little'' (elements ex_dataset), None)"
proof -
  have h: "\<forall>e\<in>set (elements ex_dataset). VR e = ''US or SS'' \<longrightarrow> is_bytes (elem_value e)"
    by (simp add: ex_dataset_def ex_pixels_def ex_us_def)
  have b: "byte_order ''1.2.840.10008.1.2'' = ''little''"
    by (simp add: byte_order_def)
  show ?thesis
    using C4_idempotent [OF h, of ex_args "''1.2.840.10008.1.2''"] by (simp add: b)
qed

text \<open>
  C5, as amended. When the file parses, the association is established, the
  \<^verbatim>\<open>US or SS\<close> elements hold raw bytes and \<^verbatim>\<open>send_c_store\<close> returns a status,
  whatever the status is, \<^verbatim>\<open>assoc.Release()\<close> is called exactly once and
  \<^verbatim>\<open>ae.Quit()\<close> exactly once: they are the last two events of the run, in this
  order, and the exit status is 0.
\<close>

theorem C5_release_and_quit_when_store_returns:
  assumes "read_file_outcome env = Returns ds" and "Established env"
    and "\<forall>e\<in>set (elements ds). VR e = ''US or SS'' \<longrightarrow> is_bytes (elem_value e)"
    and "send_c_store_outcome env = Returns status"
  shows "count_list (trace (storescu args env)) Release = 1
       \<and> count_list (trace (storescu args env)) Quit = 1
       \<and> (\<exists>pre. trace (storescu args env) = pre @ [Release, Quit])
       \<and> exit_status (storescu args env) = 0"
proof -
  have r: "raised args (byte_order (TransferSyntaxUID (file_meta ds))) (elements ds) = None"
    using assms(3) by (rule correct_loop_raw(1))
  note run = run_established [OF assms(1,2) r, of ]
  have lg: "list_all is_Stderr (logged args (byte_order (TransferSyntaxUID (file_meta ds))) (elements ds))"
    by (simp add: logged_def logged_Stderr)
  have c1: "count_list (trace (storescu args env)) Release = 1"
    unfolding run assms(4) outcome.case Run.simps
    by (subst trace_counts) (simp_all add: logger_debug_Stderr logger_info_Stderr lg)
  have c2: "count_list (trace (storescu args env)) Quit = 1"
    unfolding run assms(4) outcome.case Run.simps
    by (subst trace_counts) (simp_all add: logger_debug_Stderr logger_info_Stderr lg)
  have c3: "\<exists>pre. trace (storescu args env) = pre @ [Release, Quit]"
    unfolding run assms(4) outcome.case Run.simps by (simp add: append_eq_append_conv2)
  have c4: "exit_status (storescu args env) = 0"
    unfolding run assms(4) outcome.case by simp
  from c1 c2 c3 c4 show ?thesis by simp
qed

theorem C5_release_and_quit_when_store_returns_witness:
  "count_list (trace (storescu ex_args (ex_env (Returns 0xC000)))) Release = 1
   \<and> count_list (trace (storescu ex_args (ex_env (Returns 0xC000)))) Quit = 1"
  using C5_release_and_quit_when_store_returns [of "ex_env (Returns 0xC000)" ex_dataset "0xC000" ex_args] ex_dataset_raw
  by (simp add: ex_env_def)

text \<open>
  C5, as stated, fails when \<^verbatim>\<open>send_c_store\<close> raises: the script has no
  \<^verbatim>\<open>try\<close> around the call, so on an established association neither
  \<^verbatim>\<open>assoc.Release()\<close> nor \<^verbatim>\<open>ae.Quit()\<close> is called.
\<close>

theorem C5_no_release_when_store_raises:
  "Established (ex_env (Raises OtherException))
   \<and> count_list (trace (storescu ex_args (ex_env (Raises OtherException)))) Release = 0
   \<and> count_list (trace (storescu ex_args (ex_env (Raises OtherException)))) Quit = 0"
  using run_send_raises [of "ex_env (Raises OtherException)" ex_dataset OtherException ex_args] ex_dataset_raw
  by (simp add: ex_env_def)

text \<open>
  C6, as amended. An element with VR \<^verbatim>\<open>US or SS\<close> whose value is a byte string
  of any length, two bytes or not, makes the loop body raise nothing: the
  element is left with VR \<^verbatim>\<open>US\<close> and the unsigned integer that all of its bytes
  denote in the resolved byte order.
\<close>

theorem C6_any_length_is_decoded:
  assumes "VR e = ''US or SS''" and "elem_value e = Bytes bs"
  shows "snd (snd (loop_body args (byte_order uid) e)) = None
       \<and> fst (snd (loop_body args (byte_order uid) e))
           = e\<lparr>VR := ''US'', elem_value := IntVal (unsigned_decode (byte_order uid) bs)\<rparr>"
  using assms by (simp add: loop_body_US_or_SS)

theorem C6_any_length_is_decoded_witness:
  "snd (snd (loop_body ex_args (byte_order ''1.2.840.10008.1.2.1'') (ex_us [1, 2, 3]))) = None
   \<and> elem_value (fst (snd (loop_body ex_args (byte_order ''1.2.840.10008.1.2.1'') (ex_us [1, 2, 3]))))
       = IntVal 197121"
proof -
  have d: "unsigned_decode (byte_order ''1.2.840.10008.1.2.1'') [1, 2, 3] = 197121"
    by (simp add: unsigned_decode_def byte_order_def unsigned_little_def)
  show ?thesis
    using C6_any_length_is_decoded [of "ex_us [1, 2, 3]" "[1, 2, 3]" ex_args "''1.2.840.10008.1.2.1''"] d
    by (simp add: ex_us_def)
qed

text \<open>
  C6, as stated, fails on a value of three bytes: the loop raises nothing and
  produces a corrected element.
\<close>

theorem C6_wrong_length_is_accepted:
  "length [1, 2, 3 :: 8 word] \<noteq> 2
   \<and> raised ex_args (byte_order ''1.2.840.10008.1.2'') [ex_us [1, 2, 3]] = None
   \<and> corrected ex_args (byte_order ''1.2.840.10008.1.2'') [ex_us [1, 2, 3]]
       = [\<lparr>tag = \<lparr>group = 0x0028, elem = 0x0106\<rparr>, VR = ''US'',
           elem_value = IntVal 197121, description = ''Smallest Image Pixel Value''\<rparr>]"
proof -
  have d: "unsigned_decode (byte_order ''1.2.840.10008.1.2'') [1, 2, 3] = 197121"
    by (simp add: unsigned_decode_def byte_order_def unsigned_little_def)
  have "fst (snd (loop_body ex_args (byte_order ''1.2.840.10008.1.2'') (ex_us [1, 2, 3])))
      = (ex_us [1, 2, 3])\<lparr>VR := ''US'', elem_value := IntVal 197121\<rparr>"
    by (simp add: loop_body_US_or_SS [where bs = "[1, 2, 3]"] ex_us_def d)
  then show ?thesis
    using correct_loop_raw [OF single_raw, of ex_args "''1.2.840.10008.1.2''" "[1, 2, 3]"]
    by (simp add: ex_us_def)
qed

text \<open>
  C7, as amended. When opening or parsing the file raises, the run ends with
  exit status 0 (\<^verbatim>\<open>sys.exit()\<close> has no argument); its last event is the error line
  on standard error, \<^verbatim>\<open>Cannot read input file\<close> for an \<open>IOError\<close> and
  \<^verbatim>\<open>File may not be DICOM\<close> for anything else, whatever the verbosity flags are;
  and no event of the run touches the network.
\<close>

theorem C7_unreadable_file_exits_zero_before_network:
  assumes "read_file_outcome env = Raises exc"
  shows "exit_status (storescu args env) = 0
       \<and> last (trace (storescu args env))
           = Stderr (''E: '' @ (if exc = IOError then ''Cannot read input file ''
                else ''File may not be DICOM '') @ dcmfile_in args)
       \<and> \<not> list_ex is_network (trace (storescu args env))"
proof -
  note run = run_unreadable [OF assms, of args]
  have "\<not> list_ex is_network (trace (storescu args env))"
    unfolding run Run.simps
    using list_ex_Stderr [OF logger_debug_Stderr]
    by simp
  then show ?thesis by (simp add: run)
qed

theorem C7_unreadable_file_exits_zero_before_network_witness:
  "exit_status (storescu ex_args ex_env_unreadable) = 0
   \<and> last (trace (storescu ex_args ex_env_unreadable)) = Stderr ''E: Cannot read input file ct.dcm''
   \<and> \<not> list_ex is_network (trace (storescu ex_args ex_env_unreadable))"
  using C7_unreadable_file_exits_zero_before_network [of ex_env_unreadable IOError ex_args]
  by (simp add: ex_env_unreadable_def ex_args_def)

text \<open>
  C7, as stated, fails on an unreadable file: the exit status is not non-zero.
\<close>

theorem C7_exit_status_is_zero:
  "read_file_outcome ex_env_unreadable = Raises IOError
   \<and> \<not> exit_status (storescu ex_args ex_env_unreadable) \<noteq> 0"
  using run_unreadable [of ex_env_unreadable IOError ex_args]
  by (simp add: ex_env_unreadable_def)

text \<open>
  C8, as amended. An element with VR \<^verbatim>\<open>US or SS\<close> holding the two bytes
  \<open>0x00 0x05\<close>, corrected under a transfer syntax whose byte order is little,
  has VR \<^verbatim>\<open>US\<close> and the value 1280 (\<open>0x0500\<close>: the first byte is the least
  significant one).
\<close>

theorem C8_bytes_00_05_little_is_1280:
  assumes "\<forall>e\<in>set es. VR e = ''US or SS'' \<longrightarrow> is_bytes (elem_value e)"
    and "i < length es" and "VR (es ! i) = ''US or SS''"
    and "elem_value (es ! i) = Bytes [0x00, 0x05]"
    and "byte_order uid = ''little''"
  shows "raised args (byte_order uid) es = None
       \<and> VR (corrected args (byte_order uid) es ! i) = ''US''
       \<and> elem_value (corrected args (byte_order uid) es ! i) = IntVal 1280"
proof -
  note r = correct_loop_raw [OF assms(1), of args uid]
  have d: "unsigned_decode (byte_order uid) [0x00, 0x05] = 1280"
    by (simp add: assms(5) unsigned_decode_def unsigned_little_def)
  have "corrected args (byte_order uid) es ! i = fst (snd (loop_body args (byte_order uid) (es ! i)))"
    using assms(2) by (simp add: r(2))
  also have "\<dots> = (es ! i)\<lparr>VR := ''US'', elem_value := IntVal 1280\<rparr>"
    using assms(3,4) d by (simp add: loop_body_US_or_SS)
  finally show ?thesis by (simp add: r)
qed

theorem C8_bytes_00_05_little_is_1280_witness:
  "VR (corrected ex_args (byte_order ''1.2.840.10008.1.2'') (elements ex_dataset) ! 0) = ''US''
   \<and> elem_value (corrected ex_args (byte_order ''1.2.840.10008.1.2'') (elements ex_dataset) ! 0) = IntVal 1280"
proof -
  have b: "byte_order ''1.2.840.10008.1.2'' = ''little''"
    by (simp add: byte_order_def)
  have i: "0 < length (elements ex_dataset)" by (simp add: ex_dataset_def)
  have v: "VR (elements ex_dataset ! 0) = ''US or SS''" by (simp add: ex_dataset_def ex_us_def)
  have w: "elem_value (elements ex_dataset ! 0) = Bytes [0x00, 0x05]" by (simp add: ex_dataset_def ex_us_def)
  show ?thesis
    using C8_bytes_00_05_little_is_1280 [OF ex_dataset_raw i v w b, of ex_args] by simp
qed

text \<open>
  C8, as stated, fails: under implicit little endian the corrected value of the
  bytes \<open>0x00 0x05\<close> is not 5.
\<close>

theorem C8_value_is_not_5:
  "byte_order ''1.2.840.10008.1.2'' = ''little''
   \<and> elem_value (corrected ex_args (byte_order ''1.2.840.10008.1.2'') [ex_us [0x00, 0x05]] ! 0) \<noteq> IntVal 5"
proof -
  have d: "unsigned_decode (byte_order ''1.2.840.10008.1.2'') [0x00, 0x05] = 1280"
    by (simp add: unsigned_decode_def byte_order_def unsigned_little_def)
  have "fst (snd (loop_body ex_args (byte_order ''1.2.840.10008.1.2'') (ex_us [0x00, 0x05])))
      = (ex_us [0x00, 0x05])\<lparr>VR := ''US'', elem_value := IntVal 1280\<rparr>"
    by (simp add: loop_body_US_or_SS [where bs = "[0x00, 0x05]"] ex_us_def d)
  then show ?thesis
    using correct_loop_raw(2) [OF single_raw, of ex_args "''1.2.840.10008.1.2''" "[0x00, 0x05]"]
    by (simp add: byte_order_def)
qed

text \<open>
  C9. When the association is not established, no event of the run is a
  \<^verbatim>\<open>send_c_store\<close> call, and the data set bound at the end of the run is the
  data set as parsed (none when the file did not parse).
\<close>

theorem C9_not_established_nothing_sent_nothing_mutated:
  assumes "\<not> Established env"
  shows "\<not> list_ex is_SendCStore (trace (storescu args env))
       \<and> final_dataset (storescu args env)
           = (case read_file_outcome env of Raises exc \<Rightarrow> None | Returns ds \<Rightarrow> Some ds)"
proof (cases "read_file_outcome env")
  case (Raises exc)
  note run = run_unreadable [OF Raises, of args]
  have "\<not> list_ex is_SendCStore (trace (storescu args env))"
    unfolding run Run.simps
    using list_ex_Stderr [OF logger_debug_Stderr]
    by simp
  then show ?thesis by (simp add: run Raises)
next
  case (Returns ds)
  note run = run_rejected [OF Returns assms, of args]
  have "\<not> list_ex is_SendCStore (trace (storescu args env))"
    unfolding run Run.simps
    using list_ex_Stderr [OF logger_debug_Stderr]
    by simp
  then show ?thesis by (simp add: run Returns)
qed

theorem C9_not_established_nothing_sent_nothing_mutated_witness:
  "\<not> list_ex is_SendCStore (trace (storescu ex_args ex_env_rejected))
   \<and> final_dataset (storescu ex_args ex_env_rejected) = Some ex_dataset"
  using C9_not_established_nothing_sent_nothing_mutated [of ex_env_rejected ex_args]
  by (simp add: ex_env_rejected_def)

text \<open>
  C10. Two runs that differ only in the status \<^verbatim>\<open>send_c_store\<close> returns are the
  same run: the same events in the same order, standard error included, the
  same exit status and the same data set.
\<close>

theorem C10_status_has_no_influence:
  "storescu args (env\<lparr>send_c_store_outcome := Returns s1\<rparr>)
     = storescu args (env\<lparr>send_c_store_outcome := Returns s2\<rparr>)"
  by (simp add: storescu_def Let_def split: outcome.splits prod.splits option.splits)

theorem C10_status_has_no_influence_witness:
  "storescu ex_args ((ex_env (Returns 0))\<lparr>send_c_store_outcome := Returns (0 :: 16 word)\<rparr>)
     = storescu ex_args ((ex_env (Returns 0))\<lparr>send_c_store_outcome := Returns (0xC000 :: 16 word)\<rparr>)"
  by (rule C10_status_has_no_influence)

end
